theory Spec2Isabelle
  imports Main "HOL-Library.AList"
begin

section \<open>The streaming delegate of the camera plugin (protect-stream.ts)\<close>

text \<open>
  The development embeds \<^verbatim>\<open>ProtectStreamingDelegate\<close>: its session tables, the
  saved bitrate, the probe-size override with its decay timer, and the operations
  \<^verbatim>\<open>prepareStream\<close>, \<^verbatim>\<open>startStream\<close>, \<^verbatim>\<open>stopStream\<close>, \<^verbatim>\<open>shutdown\<close>,
  \<^verbatim>\<open>adjustProbeSize\<close> and the \<^verbatim>\<open>probesize\<close> getter.

  JavaScript numbers are modelled as \<open>int\<close> (the values here are port numbers, bitrates
  and byte counts, all integers far below \<open>2 ^ 53\<close>), the two session objects as
  association lists in insertion order (what \<^verbatim>\<open>Object.keys\<close> yields for session
  identifiers, which are not array indices), and every call to a collaborator
  (transcoder process, demuxer, port pool, camera, recording delegate, logger, HomeKit
  callback) as an entry appended to the field \<open>effects\<close>. An entry records that the
  call was made; whether the call then throws is decided by the environment.
  Each operation is run as one uninterrupted step. Session identifiers are taken not to
  be names of properties that every JavaScript object inherits (such as
  \<^verbatim>\<open>constructor\<close>), so that a lookup in a session table finds a stored record or
  nothing. The snapshot methods touch none of the fields modelled here and are left out.
\<close>

subsection \<open>Data\<close>

type_synonym sessionId = string

text \<open>A transcoder process is identified by the session it was spawned for and its role.\<close>

datatype ffmpegProcess = VideoStream sessionId | ReturnAudio sessionId

text \<open>
  \<^verbatim>\<open>new RtpDemuxer(this, addressVersion, audioIncomingPort, audioIncomingRtcpPort,
  audioIncomingRtpPort)\<close>: the demuxer is identified by its constructor arguments.
\<close>

datatype rtpDemuxer = RtpDemuxer string int int int

record rtspEntry =
  channel_id :: int
  url :: string

record addressInfo =
  port :: int
  srtpCryptoSuite :: nat
  srtp_key :: "nat list"
  srtp_salt :: "nat list"

record prepareStreamRequest =
  sessionID :: sessionId
  targetAddress :: string
  prepareAddressVersion :: string
  audio :: addressInfo
  video :: addressInfo

record prepareStreamResponse =
  audio_port :: int
  audio_srtp_key :: "nat list"
  audio_srtp_salt :: "nat list"
  audio_ssrc :: int
  video_port :: int
  video_srtp_key :: "nat list"
  video_srtp_salt :: "nat list"
  video_ssrc :: int

record startStreamRequest =
  start_sessionID :: sessionId
  video_width :: int
  video_height :: int
  video_max_bit_rate :: int
  audio_packet_time :: int

text \<open>
  The fields \<^verbatim>\<open>rtpDemuxer\<close> and \<^verbatim>\<open>rtpPortReservations\<close> occur both in the type
  \<^verbatim>\<open>SessionInfo\<close> (a pending session) and in the entries of \<^verbatim>\<open>ongoingSessions\<close>;
  they are the common root of the two records.
\<close>

record sessionPlumbing =
  rtpDemuxer :: "rtpDemuxer option"
  rtpPortReservations :: "int list"

record ongoingSession = sessionPlumbing +
  ffmpeg :: "ffmpegProcess list"

record sessionInfo = sessionPlumbing +
  address :: string
  addressVersion :: string
  videoPort :: int
  videoReturnPort :: int
  videoCryptoSuite :: nat
  videoSRTP :: "nat list"
  videoSSRC :: int
  hasAudioSupport :: bool
  audioPort :: int
  audioIncomingRtcpPort :: int
  audioIncomingRtpPort :: int
  talkBack :: "string option"
  audioCryptoSuite :: nat
  audioSRTP :: "nat list"
  audioSSRC :: int

datatype event =
    ReservePort string nat int
  | FreePort int
  | NewRtpDemuxer rtpDemuxer
  | CloseRtpDemuxer rtpDemuxer
  | SpawnFfmpeg ffmpegProcess "int option"
  | StopFfmpeg ffmpegProcess
  | GetBitrate int
  | SetBitrate int int
  | RestartTimeshifting
  | LogInfo string
  | LogError string
  | PrepareCallback prepareStreamResponse
  | StreamCallback "string option"

text \<open>
  The delegate's mutable fields. \<open>probesizeOverrideTimeout\<close> holds the delay in
  milliseconds of the pending decay timer, if one is armed.
\<close>

record delegate =
  ongoingSessions :: "(sessionId \<times> ongoingSession) list"
  pendingSessions :: "(sessionId \<times> sessionInfo) list"
  probesizeOverride :: int
  probesizeOverrideCount :: nat
  probesizeOverrideTimeout :: "nat option"
  rtspEntry :: "rtspEntry option"
  savedBitrate :: int
  effects :: "event list"

text \<open>
  What the delegate reads from its collaborators during one operation. None of them is
  part of the delegate's source file, so they are parameters:
  \<^item> \<open>hksv\<close> is \<open>None\<close> when \<^verbatim>\<open>this.hksv\<close> is null, otherwise its \<^verbatim>\<open>isRecording\<close>;
  \<^item> \<open>reservePort\<close> is the port pool's answer (\<open>-1\<close> for failure), which may depend
    on all calls made so far;
  \<^item> the \<open>...Throws\<close> fields say which collaborator calls throw.
\<close>

record env =
  isOnline :: bool
  hksv :: "bool option"
  hints_probesize :: int
  hints_twoWayAudio :: bool
  hints_transcode :: bool
  hints_transcodeHighLatency :: bool
  hints_hardwareTranscoding :: bool
  audioEncoder :: "string list"
  hostSystemMaxPixels :: int
  findRtsp :: "int \<Rightarrow> int \<Rightarrow> int \<Rightarrow> rtspEntry option"
  getBitrate :: "int \<Rightarrow> int"
  reservePort :: "event list \<Rightarrow> string \<Rightarrow> nat \<Rightarrow> int"
  generateAudioSSRC :: int
  generateVideoSSRC :: int
  ffmpegStopThrows :: "ffmpegProcess \<Rightarrow> bool"
  demuxerCloseThrows :: "rtpDemuxer \<Rightarrow> bool"
  freePortThrows :: "int \<Rightarrow> bool"
  restartTimeshiftingThrows :: bool
  setBitrateThrows :: "int \<Rightarrow> int \<Rightarrow> bool"

text \<open>The constructor's initial values.\<close>

definition newDelegate :: delegate where
  "newDelegate =
     \<lparr>ongoingSessions = [], pendingSessions = [], probesizeOverride = 0,
      probesizeOverrideCount = 0, probesizeOverrideTimeout = None, rtspEntry = None,
      savedBitrate = 0, effects = []\<rparr>"

subsection \<open>Effects and exceptions\<close>

datatype completion = Returned | Thrown

definition emit :: "event \<Rightarrow> delegate \<Rightarrow> delegate" where
  "emit ev s = s\<lparr>effects := effects s @ [ev]\<rparr>"

text \<open>Sequencing: a statement after one that threw does not run.\<close>

definition andThen ::
  "completion \<times> delegate \<Rightarrow> (delegate \<Rightarrow> completion \<times> delegate) \<Rightarrow> completion \<times> delegate" where
  "andThen r f = (case r of (Returned, s) \<Rightarrow> f s | (Thrown, s) \<Rightarrow> (Thrown, s))"

subsection \<open>Probe size\<close>

definition probesize :: "env \<Rightarrow> delegate \<Rightarrow> int" where
  "probesize e s =
     (if probesizeOverride s \<noteq> 0 then probesizeOverride s else hints_probesize e)"

definition adjustProbeSize_message :: string where
  "adjustProbeSize_message = ''The FFmpeg process ended unexpectedly''"

definition adjustProbeSize :: "env \<Rightarrow> delegate \<Rightarrow> delegate" where
  "adjustProbeSize e s =
     (let s1 = (if probesizeOverrideTimeout s \<noteq> None
                then s\<lparr>probesizeOverrideTimeout := None\<rparr> else s);
          s2 = s1\<lparr>probesizeOverrideCount := probesizeOverrideCount s1 + 1\<rparr>;
          s3 = s2\<lparr>probesizeOverride := probesize e s2 * 2\<rparr>;
          s4 = (if probesizeOverride s3 > 5000000
                then s3\<lparr>probesizeOverride := 5000000\<rparr> else s3);
          s5 = emit (LogError adjustProbeSize_message) s4
      in if probesizeOverrideCount s5 < 10
         then s5\<lparr>probesizeOverrideTimeout := Some (1000 * 60 * 10)\<rparr>
         else s5)"

text \<open>
  The callback handed to \<^verbatim>\<open>setTimeout\<close>. A timer that was cleared, or that has
  already fired, does not fire.
\<close>

definition probesizeTimeoutFires :: "delegate \<Rightarrow> delegate" where
  "probesizeTimeoutFires s =
     (case probesizeOverrideTimeout s of
        None \<Rightarrow> s
      | Some ms \<Rightarrow> s\<lparr>probesizeOverride := 0, probesizeOverrideTimeout := None\<rparr>)"

subsection \<open>prepareStream\<close>

text \<open>
  The local closure \<^verbatim>\<open>reservePort\<close>. Its captured variables \<^verbatim>\<open>reservePortFailed\<close>
  and \<^verbatim>\<open>rtpPortReservations\<close> travel with the delegate as a triple.
\<close>

type_synonym prepareState = "bool \<times> int list \<times> delegate"

definition reservePortLocal ::
  "env \<Rightarrow> string \<Rightarrow> nat \<Rightarrow> prepareState \<Rightarrow> int \<times> prepareState" where
  "reservePortLocal e ipFamily portCount st =
     (case st of (reservePortFailed, reservations, s) \<Rightarrow>
        if reservePortFailed then (- 1, st)
        else
          let assignedPort = reservePort e (effects s) ipFamily portCount;
              s' = emit (ReservePort ipFamily portCount assignedPort) s
          in if assignedPort = - 1 then (assignedPort, (True, reservations, s'))
             else (assignedPort,
                   (False,
                    reservations @ [assignedPort] @
                      (if portCount = 2 then [assignedPort + 1] else []),
                    s')))"

definition onDelegate :: "(delegate \<Rightarrow> delegate) \<Rightarrow> prepareState \<Rightarrow> prepareState" where
  "onDelegate f st = (case st of (reservePortFailed, reservations, s) \<Rightarrow>
     (reservePortFailed, reservations, f s))"

text \<open>
  The audio and video plumbing of \<^verbatim>\<open>prepareStream\<close>: every port reservation, and
  the demuxer for two-way audio. The result is (\<^verbatim>\<open>audioIncomingRtcpPort\<close>,
  \<^verbatim>\<open>audioIncomingPort\<close>, \<^verbatim>\<open>audioIncomingRtpPort\<close>, \<^verbatim>\<open>rtpDemuxer\<close>,
  \<^verbatim>\<open>videoReturnPort\<close>) with the closure's variables and the delegate.
\<close>

definition preparePlumbing ::
  "env \<Rightarrow> prepareStreamRequest \<Rightarrow> delegate \<Rightarrow>
   (int \<times> int \<times> int \<times> rtpDemuxer option \<times> int) \<times> prepareState" where
  "preparePlumbing e request s =
     (let st0 = (False, [], s);
          hasAudio = (length (audioEncoder e) > 0);
          twoWay = (hasAudio \<and> hints_twoWayAudio e);
          (audioIncomingRtcp, st1) = reservePortLocal e (prepareAddressVersion request) 1 st0;
          (audioIncomingPort, st2) =
            (if twoWay then reservePortLocal e (prepareAddressVersion request) 1 st1
             else (- 1, st1));
          (audioIncomingRtp, st3) =
            (if twoWay then reservePortLocal e (prepareAddressVersion request) 2 st2
             else (- 1, st2));
          st4 = (if \<not> hasAudio then onDelegate (emit (LogInfo ''Audio support disabled.'')) st3
                 else st3);
          demuxer = RtpDemuxer (prepareAddressVersion request) audioIncomingPort
                      audioIncomingRtcp audioIncomingRtp;
          (rtpDemuxer0, st5) =
            (if twoWay
             then (Some demuxer,
                   onDelegate (emit (LogError ''Unable to open the return audio channel.''))
                     (onDelegate (emit (NewRtpDemuxer demuxer)) st4))
             else (None, st4));
          (videoReturn, st6) = reservePortLocal e (prepareAddressVersion request) 1 st5
      in ((audioIncomingRtcp, audioIncomingPort, audioIncomingRtp, rtpDemuxer0, videoReturn),
          st6))"

definition prepareStream :: "env \<Rightarrow> prepareStreamRequest \<Rightarrow> delegate \<Rightarrow> delegate" where
  "prepareStream e request s =
     (case preparePlumbing e request s of
        ((audioIncomingRtcp, audioIncomingPort, audioIncomingRtp, rtpDemuxer0, videoReturn),
         (reservePortFailed, reservations, s6)) \<Rightarrow>
         let hasAudio = (length (audioEncoder e) > 0);
             twoWay = (hasAudio \<and> hints_twoWayAudio e);
             aSSRC = generateAudioSSRC e;
             vSSRC = generateVideoSSRC e;
             s7 = (if reservePortFailed
                   then emit (LogError ''Unable to reserve the UDP ports needed to begin streaming.'') s6
                   else s6);
             info = \<lparr>rtpDemuxer = rtpDemuxer0, rtpPortReservations = reservations,
                     address = targetAddress request,
                     addressVersion = prepareAddressVersion request,
                     videoPort = port (video request),
                     videoReturnPort = videoReturn,
                     videoCryptoSuite = srtpCryptoSuite (video request),
                     videoSRTP = srtp_key (video request) @ srtp_salt (video request),
                     videoSSRC = vSSRC,
                     hasAudioSupport = hasAudio,
                     audioPort = port (audio request),
                     audioIncomingRtcpPort = audioIncomingRtcp,
                     audioIncomingRtpPort = audioIncomingRtp,
                     talkBack = None,
                     audioCryptoSuite = srtpCryptoSuite (audio request),
                     audioSRTP = srtp_key (audio request) @ srtp_salt (audio request),
                     audioSSRC = aSSRC\<rparr>;
             response = \<lparr>audio_port = (if twoWay then audioIncomingPort else audioIncomingRtcp),
                         audio_srtp_key = srtp_key (audio request),
                         audio_srtp_salt = srtp_salt (audio request),
                         audio_ssrc = aSSRC,
                         video_port = videoReturn,
                         video_srtp_key = srtp_key (video request),
                         video_srtp_salt = srtp_salt (video request),
                         video_ssrc = vSSRC\<rparr>;
             s8 = s7\<lparr>pendingSessions :=
                       AList.update (sessionID request) info (pendingSessions s7)\<rparr>
         in emit (PrepareCallback response) s8)"

subsection \<open>startStream\<close>

definition offlineMessage :: string where
  "offlineMessage = ''Unable to start video stream: the camera is offline or unavailable.''"

definition noProfileMessage :: string where
  "noProfileMessage = ''Unable to start video stream: no valid RTSP stream profile was found.''"

text \<open>
  Spawning the return-audio transcoder and registering it:
  \<^verbatim>\<open>this.ongoingSessions[request.sessionID].ffmpeg.push(ffmpegReturnAudio)\<close> throws when
  the session is no longer registered. The enclosing \<^verbatim>\<open>try\<close> logs the error.
\<close>

definition launchReturnAudio :: "env \<Rightarrow> sessionId \<Rightarrow> delegate \<Rightarrow> delegate" where
  "launchReturnAudio e sid s =
     (let s1 = emit (SpawnFfmpeg (ReturnAudio sid) None) s
      in case map_of (ongoingSessions s1) sid of
           None \<Rightarrow> emit (LogError ''Unable to connect to the return audio channel'') s1
         | Some entry \<Rightarrow>
             s1\<lparr>ongoingSessions :=
                  AList.update sid (entry\<lparr>ffmpeg := ffmpeg entry @ [ReturnAudio sid]\<rparr>)
                    (ongoingSessions s1)\<rparr>)"

text \<open>The transcoding decision and the profile lookup made with it.\<close>

definition isTranscoding :: "env \<Rightarrow> startStreamRequest \<Rightarrow> bool" where
  "isTranscoding e request \<longleftrightarrow>
     hints_transcode e \<or>
     (60 \<le> audio_packet_time request \<and> hints_transcodeHighLatency e)"

definition selectRtsp :: "env \<Rightarrow> startStreamRequest \<Rightarrow> rtspEntry option" where
  "selectRtsp e request =
     findRtsp e
       (if isTranscoding e request \<and> hints_hardwareTranscoding e
        then 3840 else video_width request)
       (if isTranscoding e request \<and> hints_hardwareTranscoding e
        then 2160 else video_height request)
       (if isTranscoding e request then hostSystemMaxPixels e else 0)"

text \<open>
  The function up to its first suspension point. The transcoder's argument vector is
  pure string assembly; of it the spawn event keeps the value passed as
  \<^verbatim>\<open>-probesize\<close> (the return-audio command has none). With two-way audio
  and a demuxer the function then waits for the first RTP packet; what follows the wait
  is \<open>talkbackFirstPacket\<close>. A missing pending record makes the read of
  \<^verbatim>\<open>sessionInfo.addressVersion\<close> in the second statement throw. The talkback
  websocket and the stream listeners are not modelled (\<^verbatim>\<open>prepareStream\<close> always
  stores a null \<^verbatim>\<open>talkBack\<close>).
\<close>

definition startStream :: "env \<Rightarrow> startStreamRequest \<Rightarrow> delegate \<Rightarrow> completion \<times> delegate" where
  "startStream e request s =
     (case map_of (pendingSessions s) (start_sessionID request) of
        None \<Rightarrow> (Thrown, s)
      | Some info \<Rightarrow>
          if \<not> isOnline e
          then (Returned, emit (StreamCallback (Some offlineMessage))
                            (emit (LogError offlineMessage) s))
          else
            let s1 = s\<lparr>rtspEntry := selectRtsp e request\<rparr>
            in (case rtspEntry s1 of
                 None \<Rightarrow>
                   (Returned, emit (StreamCallback (Some noProfileMessage))
                                (emit (LogError noProfileMessage) s1))
               | Some entry \<Rightarrow>
                   let s2 = (if savedBitrate s1 = 0
                             then
                               (let s' = (emit (GetBitrate (channel_id entry)) s1)
                                           \<lparr>savedBitrate := getBitrate e (channel_id entry)\<rparr>
                                in if savedBitrate s' < 0 then s'\<lparr>savedBitrate := 0\<rparr> else s')
                             else s1);
                       requested = video_max_bit_rate request * 1000;
                       s3 = emit (SetBitrate (channel_id entry) requested) s2
                   in if setBitrateThrows e (channel_id entry) requested then (Thrown, s3)
                      else
                        let s4 = emit (LogInfo ''Streaming request'') s3;
                            s5 = emit (SpawnFfmpeg (VideoStream (start_sessionID request))
                                         (Some (probesize e s3))) s4;
                            s6 = s5\<lparr>ongoingSessions :=
                                      AList.update (start_sessionID request)
                                        \<lparr>rtpDemuxer = rtpDemuxer info,
                                         rtpPortReservations = rtpPortReservations info,
                                         ffmpeg = [VideoStream (start_sessionID request)]\<rparr>
                                        (ongoingSessions s5)\<rparr>;
                            s7 = s6\<lparr>pendingSessions :=
                                      AList.delete (start_sessionID request) (pendingSessions s6)\<rparr>
                        in if \<not> hasAudioSupport info \<or> \<not> hints_twoWayAudio e
                           then (Returned, s7)
                           else if rtpDemuxer info \<noteq> None then (Returned, s7)
                           else (Returned, launchReturnAudio e (start_sessionID request) s7)))"

text \<open>
  The rest of \<^verbatim>\<open>startStream\<close> once the demuxer has signalled its first packet;
  \<open>isRunning\<close> is the demuxer's flag at that moment.
\<close>

definition talkbackFirstPacket :: "env \<Rightarrow> bool \<Rightarrow> sessionId \<Rightarrow> delegate \<Rightarrow> delegate" where
  "talkbackFirstPacket e isRunning sid s =
     (if \<not> isRunning then s else launchReturnAudio e sid s)"

subsection \<open>stopStream and shutdown\<close>

fun stopFfmpeg :: "env \<Rightarrow> ffmpegProcess list \<Rightarrow> delegate \<Rightarrow> completion \<times> delegate" where
  "stopFfmpeg e [] s = (Returned, s)"
| "stopFfmpeg e (p # ps) s =
     (if ffmpegStopThrows e p then (Thrown, emit (StopFfmpeg p) s)
      else stopFfmpeg e ps (emit (StopFfmpeg p) s))"

definition closeDemuxer :: "env \<Rightarrow> rtpDemuxer option \<Rightarrow> delegate \<Rightarrow> completion \<times> delegate" where
  "closeDemuxer e d s =
     (case d of
        None \<Rightarrow> (Returned, s)
      | Some x \<Rightarrow>
          (if demuxerCloseThrows e x then Thrown else Returned, emit (CloseRtpDemuxer x) s))"

text \<open>\<^verbatim>\<open>rtpPortReservations.map(x => this.platform.rtpPorts.freePort(x))\<close>\<close>

fun freePorts :: "env \<Rightarrow> int list \<Rightarrow> delegate \<Rightarrow> completion \<times> delegate" where
  "freePorts e [] s = (Returned, s)"
| "freePorts e (x # xs) s =
     (if freePortThrows e x then (Thrown, emit (FreePort x) s)
      else freePorts e xs (emit (FreePort x) s))"

definition stopOngoing :: "env \<Rightarrow> sessionId \<Rightarrow> delegate \<Rightarrow> completion \<times> delegate" where
  "stopOngoing e sessionId s =
     (case map_of (ongoingSessions s) sessionId of
        None \<Rightarrow> (Returned, s)
      | Some entry \<Rightarrow>
          andThen
            (andThen
               (andThen (stopFfmpeg e (ffmpeg entry) s) (closeDemuxer e (rtpDemuxer entry)))
               (\<lambda>s. (Returned, emit (LogInfo ''Stopped video streaming session.'') s)))
            (freePorts e (rtpPortReservations entry)))"

definition stopPending :: "env \<Rightarrow> sessionId \<Rightarrow> delegate \<Rightarrow> completion \<times> delegate" where
  "stopPending e sessionId s =
     (case map_of (pendingSessions s) sessionId of
        None \<Rightarrow> (Returned, s)
      | Some info \<Rightarrow> freePorts e (rtpPortReservations info) s)"

definition deleteEntries :: "sessionId \<Rightarrow> delegate \<Rightarrow> completion \<times> delegate" where
  "deleteEntries sessionId s =
     (Returned,
      s\<lparr>pendingSessions := AList.delete sessionId (pendingSessions s),
        ongoingSessions := AList.delete sessionId (ongoingSessions s)\<rparr>)"

definition restoreSettings :: "env \<Rightarrow> delegate \<Rightarrow> completion \<times> delegate" where
  "restoreSettings e s =
     (if length (map fst (ongoingSessions s)) = 0
      then
        (if hksv e = Some True
         then (if restartTimeshiftingThrows e then Thrown else Returned,
               emit RestartTimeshifting s)
         else if savedBitrate s \<noteq> 0
         then
           (case rtspEntry s of
              None \<Rightarrow> (Returned, s\<lparr>savedBitrate := 0\<rparr>)
            | Some entry \<Rightarrow>
                let s1 = emit (SetBitrate (channel_id entry) (savedBitrate s)) s
                in if setBitrateThrows e (channel_id entry) (savedBitrate s) then (Thrown, s1)
                   else (Returned, s1\<lparr>savedBitrate := 0\<rparr>))
         else (Returned, s))
      else (Returned, s))"

text \<open>The body of the \<^verbatim>\<open>try\<close> block.\<close>

definition stopStreamTry :: "env \<Rightarrow> sessionId \<Rightarrow> delegate \<Rightarrow> completion \<times> delegate" where
  "stopStreamTry e sessionId s =
     andThen
       (andThen
          (andThen (stopOngoing e sessionId s) (stopPending e sessionId))
          (deleteEntries sessionId))
       (restoreSettings e)"

definition stopErrorMessage :: string where
  "stopErrorMessage = ''Error occurred while ending the FFmpeg video processes''"

text \<open>The whole function: the \<^verbatim>\<open>catch\<close> clause logs and returns.\<close>

definition stopStream :: "env \<Rightarrow> sessionId \<Rightarrow> delegate \<Rightarrow> delegate" where
  "stopStream e sessionId s =
     (case stopStreamTry e sessionId s of
        (Returned, s') \<Rightarrow> s'
      | (Thrown, s') \<Rightarrow> emit (LogError stopErrorMessage) s')"

fun stopEach :: "env \<Rightarrow> sessionId list \<Rightarrow> delegate \<Rightarrow> delegate" where
  "stopEach e [] s = s"
| "stopEach e (session # sessions) s = stopEach e sessions (stopStream e session s)"

definition shutdown :: "env \<Rightarrow> delegate \<Rightarrow> delegate" where
  "shutdown e s = stopEach e (map fst (ongoingSessions s)) s"

subsection \<open>handleStreamRequest\<close>

datatype streamingRequest =
    START startStreamRequest
  | RECONFIGURE startStreamRequest
  | STOP sessionId

definition handleStreamRequest ::
  "env \<Rightarrow> streamingRequest \<Rightarrow> delegate \<Rightarrow> completion \<times> delegate" where
  "handleStreamRequest e request s =
     (case request of
        START r \<Rightarrow> startStream e r s
      | RECONFIGURE r \<Rightarrow>
          (let s1 = emit (LogInfo ''Streaming parameters adjustment requested by HomeKit'') s
           in case rtspEntry s1 of
                None \<Rightarrow> (Returned, emit (StreamCallback None) s1)
              | Some entry \<Rightarrow>
                  let s2 = emit (SetBitrate (channel_id entry) (video_max_bit_rate r * 1000)) s1
                  in if setBitrateThrows e (channel_id entry) (video_max_bit_rate r * 1000)
                     then (Thrown, s2)
                     else (Returned, emit (StreamCallback None) s2))
      | STOP sessionId \<Rightarrow> (Returned, emit (StreamCallback None) (stopStream e sessionId s)))"

subsection \<open>Histories of the delegate\<close>

text \<open>
  One step of the delegate's life: a call of a public method, the rest of a suspended
  \<^verbatim>\<open>startStream\<close>, or the decay timer firing. An exception that leaves a method is
  the caller's; the delegate keeps the state it had reached.
\<close>

datatype operation =
    PrepareStream prepareStreamRequest
  | HandleStreamRequest streamingRequest
  | TalkbackFirstPacket bool sessionId
  | StopStream sessionId
  | Shutdown
  | AdjustProbeSize
  | ProbesizeTimeoutFires

fun step :: "env \<Rightarrow> operation \<Rightarrow> delegate \<Rightarrow> delegate" where
  "step e (PrepareStream r) s = prepareStream e r s"
| "step e (HandleStreamRequest r) s = snd (handleStreamRequest e r s)"
| "step e (TalkbackFirstPacket running sid) s = talkbackFirstPacket e running sid s"
| "step e (StopStream sid) s = stopStream e sid s"
| "step e Shutdown s = shutdown e s"
| "step e AdjustProbeSize s = adjustProbeSize e s"
| "step e ProbesizeTimeoutFires s = probesizeTimeoutFires s"

fun run :: "(env \<times> operation) list \<Rightarrow> delegate \<Rightarrow> delegate" where
  "run [] s = s"
| "run (eo # rest) s = run rest (step (fst eo) (snd eo) s)"

text \<open>\<open>n\<close> calls of \<^verbatim>\<open>adjustProbeSize\<close> in a row, with no timer firing in between.\<close>

fun adjustProbeSizeTimes :: "env \<Rightarrow> nat \<Rightarrow> delegate \<Rightarrow> delegate" where
  "adjustProbeSizeTimes e 0 s = s"
| "adjustProbeSizeTimes e (Suc n) s = adjustProbeSizeTimes e n (adjustProbeSize e s)"

subsection \<open>Vocabulary of the properties\<close>



fun isSetBitrate :: "event \<Rightarrow> bool" where
  "isSetBitrate (SetBitrate c b) = True"
| "isSetBitrate ev = False"

text \<open>The answers of the port pool among a list of effects, in call order.\<close>

fun reservationResults :: "event list \<Rightarrow> int list" where
  "reservationResults [] = []"
| "reservationResults (ReservePort ipFamily portCount r # evs) = r # reservationResults evs"
| "reservationResults (ev # evs) = reservationResults evs"

text \<open>The effects an operation added to those of the state it started from.\<close>

definition newEffects :: "delegate \<Rightarrow> delegate \<Rightarrow> event list" where
  "newEffects s s' = drop (length (effects s)) (effects s')"

definition adjustCalls :: "(env \<times> operation) list \<Rightarrow> nat" where
  "adjustCalls ops = length (filter (\<lambda>eo. snd eo = AdjustProbeSize) ops)"

text \<open>
  The invariant of the reservation closure over the effects added to \<open>base\<close>: a failed
  answer can only be the last answer, and there is none while the flag is unset.
\<close>

definition reserveInv :: "event list \<Rightarrow> prepareState \<Rightarrow> bool" where
  "reserveInv base st \<longleftrightarrow>
     (case st of (failed, reservations, s) \<Rightarrow>
        (\<exists>new. effects s = base @ new \<and>
           - 1 \<notin> set (butlast (reservationResults new)) \<and>
           (\<not> failed \<longrightarrow> - 1 \<notin> set (reservationResults new))))"

text \<open>Frame conditions: what a step leaves alone.\<close>

definition keepsProbe :: "delegate \<Rightarrow> delegate \<Rightarrow> bool" where
  "keepsProbe s s' \<longleftrightarrow>
     probesizeOverride s' = probesizeOverride s \<and>
     probesizeOverrideCount s' = probesizeOverrideCount s \<and>
     probesizeOverrideTimeout s' = probesizeOverrideTimeout s"

definition keepsSettings :: "delegate \<Rightarrow> delegate \<Rightarrow> bool" where
  "keepsSettings s s' \<longleftrightarrow>
     keepsProbe s s' \<and> savedBitrate s' = savedBitrate s \<and> rtspEntry s' = rtspEntry s \<and>
     ongoingSessions s' = ongoingSessions s"

definition noRestore :: "delegate \<Rightarrow> delegate \<Rightarrow> bool" where
  "noRestore s s' \<longleftrightarrow>
     savedBitrate s' = savedBitrate s \<and>
     (\<exists>evs. effects s' = effects s @ evs \<and> filter isSetBitrate evs = [])"

text \<open>Whether a collaborator call throws in an environment; logging never does.\<close>

fun callThrows :: "env \<Rightarrow> event \<Rightarrow> bool" where
  "callThrows e (StopFfmpeg p) = ffmpegStopThrows e p"
| "callThrows e (CloseRtpDemuxer d) = demuxerCloseThrows e d"
| "callThrows e (FreePort x) = freePortThrows e x"
| "callThrows e RestartTimeshifting = restartTimeshiftingThrows e"
| "callThrows e (SetBitrate c b) = setBitrateThrows e c b"
| "callThrows e ev = False"

text \<open>A sequence of calls cut after the first one that throws.\<close>

fun upToThrow :: "env \<Rightarrow> event list \<Rightarrow> event list" where
  "upToThrow e [] = []"
| "upToThrow e (ev # evs) = (if callThrows e ev then [ev] else ev # upToThrow e evs)"

text \<open>Making a sequence of calls, one after the other, until one throws.\<close>

definition perform :: "env \<Rightarrow> event list \<Rightarrow> delegate \<Rightarrow> completion \<times> delegate" where
  "perform e evs s =
     (if list_ex (callThrows e) evs then Thrown else Returned,
      s\<lparr>effects := effects s @ upToThrow e evs\<rparr>)"

text \<open>
  The camera-side call that follows the teardown of session \<open>sessionId\<close>: none while
  another session is ongoing; the timeshift restart while recording; otherwise the
  bitrate restore, when a bitrate is saved and a stream profile is selected.
\<close>

definition restoreCalls :: "env \<Rightarrow> delegate \<Rightarrow> sessionId \<Rightarrow> event list" where
  "restoreCalls e s sessionId =
     (if AList.delete sessionId (ongoingSessions s) = []
      then (if hksv e = Some True then [RestartTimeshifting]
            else if savedBitrate s \<noteq> 0
            then (case rtspEntry s of
                    None \<Rightarrow> []
                  | Some entry \<Rightarrow> [SetBitrate (channel_id entry) (savedBitrate s)])
            else [])
      else [])"



subsection \<open>A concrete camera and concrete requests\<close>

text \<open>
  A camera that is online, has no recording delegate, reports a bitrate of 3,000,000
  and has one stream profile on channel 0. The port pool hands out 5000, 5002, 5004, ...
\<close>

definition camera :: env where
  "camera =
     \<lparr>isOnline = True, hksv = None, hints_probesize = 16384, hints_twoWayAudio = True,
      hints_transcode = False, hints_transcodeHighLatency = False,
      hints_hardwareTranscoding = False, audioEncoder = [''-acodec'', ''libfdk_aac''],
      hostSystemMaxPixels = 0,
      findRtsp = (\<lambda>w h m. Some \<lparr>channel_id = 0, url = ''rtsps://camera/high''\<rparr>),
      getBitrate = (\<lambda>c. 3000000),
      reservePort = (\<lambda>evs ipFamily portCount. 5000 + 2 * int (length evs)),
      generateAudioSSRC = 11, generateVideoSSRC = 22,
      ffmpegStopThrows = (\<lambda>p. False), demuxerCloseThrows = (\<lambda>d. False),
      freePortThrows = (\<lambda>x. False), restartTimeshiftingThrows = False,
      setBitrateThrows = (\<lambda>c b. False)\<rparr>"

definition prepareRequest :: "sessionId \<Rightarrow> prepareStreamRequest" where
  "prepareRequest sid =
     \<lparr>sessionID = sid, targetAddress = ''192.168.1.20'', prepareAddressVersion = ''ipv4'',
      audio = \<lparr>port = 50010, srtpCryptoSuite = 0, srtp_key = [1, 2], srtp_salt = [3]\<rparr>,
      video = \<lparr>port = 50020, srtpCryptoSuite = 0, srtp_key = [4, 5], srtp_salt = [6]\<rparr>\<rparr>"

definition startRequest :: "sessionId \<Rightarrow> startStreamRequest" where
  "startRequest sid =
     \<lparr>start_sessionID = sid, video_width = 1280, video_height = 720,
      video_max_bit_rate = 299, audio_packet_time = 20\<rparr>"

section \<open>Proofs\<close>

subsection \<open>Effects and sequencing\<close>

lemma emit_simps:
  "ongoingSessions (emit ev s) = ongoingSessions s"
  "pendingSessions (emit ev s) = pendingSessions s"
  "probesizeOverride (emit ev s) = probesizeOverride s"
  "probesizeOverrideCount (emit ev s) = probesizeOverrideCount s"
  "probesizeOverrideTimeout (emit ev s) = probesizeOverrideTimeout s"
  "rtspEntry (emit ev s) = rtspEntry s"
  "savedBitrate (emit ev s) = savedBitrate s"
  "effects (emit ev s) = effects s @ [ev]"
  by (simp_all add: emit_def)



lemmas eval_defs = prepareStream_def preparePlumbing_def reservePortLocal_def onDelegate_def emit_def
  handleStreamRequest_def startStream_def selectRtsp_def isTranscoding_def launchReturnAudio_def
  stopStream_def stopStreamTry_def stopOngoing_def stopPending_def deleteEntries_def
  restoreSettings_def closeDemuxer_def andThen_def shutdown_def probesize_def
  camera_def prepareRequest_def startRequest_def newDelegate_def Let_def
  offlineMessage_def noProfileMessage_def stopErrorMessage_def talkbackFirstPacket_def
  AList.delete_eq newEffects_def adjustCalls_def adjustProbeSize_def probesizeTimeoutFires_def

subsection \<open>Probe size\<close>

lemma adjustProbeSize_count:
  "probesizeOverrideCount (adjustProbeSize e s) = probesizeOverrideCount s + 1"
  by (simp add: adjustProbeSize_def Let_def emit_simps)

lemma adjustProbeSize_timeout:
  "probesizeOverrideTimeout (adjustProbeSize e s) =
     (if probesizeOverrideCount s + 1 < 10 then Some 600000 else None)"
  by (simp add: adjustProbeSize_def Let_def emit_simps)

lemma adjustProbeSize_override:
  "probesizeOverride (adjustProbeSize e s) = min (probesize e s * 2) 5000000"
  by (simp add: adjustProbeSize_def Let_def emit_simps probesize_def)

lemma probesize_adjustProbeSize:
  "probesize e (adjustProbeSize e s) = min (probesize e s * 2) 5000000"
  unfolding probesize_def [of e "adjustProbeSize e s"] adjustProbeSize_override
  by (auto simp: probesize_def)

lemma min_cap_mult:
  fixes a c k :: int
  assumes "0 < c" "1 \<le> k"
  shows "min (min a c * k) c = min (a * k) c"
proof (cases "a \<le> c")
  case True
  then show ?thesis by simp
next
  case False
  then have ac: "c < a" by simp
  have "c * 1 \<le> c * k" using assms by (intro mult_left_mono) simp_all
  then have ck: "c \<le> c * k" by simp
  have "c * k \<le> a * k" using ac assms by (intro mult_right_mono) simp_all
  with ck have "c \<le> a * k" by simp
  with ck ac show ?thesis by (simp add: min_def)
qed

lemma probesize_adjustProbeSizeTimes:
  "probesize e (adjustProbeSizeTimes e (Suc n) s) = min (probesize e s * 2 ^ Suc n) 5000000"
proof (induction n arbitrary: s)
  case 0
  show ?case by (simp add: probesize_adjustProbeSize)
next
  case (Suc n)
  have "probesize e (adjustProbeSizeTimes e (Suc (Suc n)) s) =
        probesize e (adjustProbeSizeTimes e (Suc n) (adjustProbeSize e s))" by simp
  also have "\<dots> = min (min (probesize e s * 2) 5000000 * 2 ^ Suc n) 5000000"
    by (simp only: Suc.IH probesize_adjustProbeSize)
  also have "\<dots> = min ((probesize e s * 2) * 2 ^ Suc n) 5000000"
  proof (rule min_cap_mult)
    show "(1::int) \<le> 2 ^ Suc n" by (rule one_le_power) simp
  qed simp
  finally show ?case by (simp add: mult.assoc)
qed

lemma adjustProbeSizeTimes_count:
  "probesizeOverrideCount (adjustProbeSizeTimes e n s) = probesizeOverrideCount s + n"
  by (induction n arbitrary: s) (simp_all add: adjustProbeSize_count)

lemma adjustProbeSizeTimes_snoc:
  "adjustProbeSizeTimes e (Suc n) s = adjustProbeSize e (adjustProbeSizeTimes e n s)"
  by (induction n arbitrary: s) simp_all

lemma adjustProbeSizeTimes_timeout:
  "probesizeOverrideTimeout (adjustProbeSizeTimes e (Suc n) s) =
     (if probesizeOverrideCount s + Suc n < 10 then Some 600000 else None)"
  unfolding adjustProbeSizeTimes_snoc
  by (simp add: adjustProbeSize_timeout adjustProbeSizeTimes_count)

lemma adjustProbeSizeTimes_override:
  "probesizeOverride (adjustProbeSizeTimes e (Suc n) s) = min (probesize e s * 2 ^ Suc n) 5000000"
proof (cases n)
  case 0
  then show ?thesis by (simp add: adjustProbeSize_override)
next
  case (Suc m)
  have "probesizeOverride (adjustProbeSizeTimes e (Suc n) s) =
        min (probesize e (adjustProbeSizeTimes e n s) * 2) 5000000"
    unfolding adjustProbeSizeTimes_snoc by (rule adjustProbeSize_override)
  also have "\<dots> = min (min (probesize e s * 2 ^ n) 5000000 * 2) 5000000"
    unfolding Suc by (simp only: probesize_adjustProbeSizeTimes)
  also have "\<dots> = min ((probesize e s * 2 ^ n) * 2) 5000000"
    by (rule min_cap_mult) simp_all
  finally show ?thesis by (simp add: mult.assoc mult.commute)
qed

lemma probesizeTimeoutFires_unarmed:
  "probesizeOverrideTimeout s = None \<Longrightarrow> probesizeTimeoutFires s = s"
  by (simp add: probesizeTimeoutFires_def)

lemma probesizeTimeoutFires_armed:
  "probesizeOverrideTimeout s = Some ms \<Longrightarrow> probesizeOverride (probesizeTimeoutFires s) = 0"
  by (simp add: probesizeTimeoutFires_def)

text \<open>
  C4. Counting from a delegate whose failure counter is 0: after \<open>n\<close> failures in a row
  with \<open>0 < n < 10\<close> a decay timer of 600000 ms (10 minutes) is armed, and its firing
  resets the override to zero; after ten or more no timer is armed, a timer event
  changes nothing, and the override keeps its doubled, capped value.
\<close>

theorem adjustProbeSize_ten_failures:
  assumes "probesizeOverrideCount s = 0"
  shows "(0 < n \<and> n < 10 \<longrightarrow>
            probesizeOverrideTimeout (adjustProbeSizeTimes e n s) = Some 600000 \<and>
            probesizeOverride (probesizeTimeoutFires (adjustProbeSizeTimes e n s)) = 0) \<and>
         (10 \<le> n \<longrightarrow>
            probesizeOverrideTimeout (adjustProbeSizeTimes e n s) = None \<and>
            probesizeTimeoutFires (adjustProbeSizeTimes e n s) = adjustProbeSizeTimes e n s \<and>
            probesizeOverride (adjustProbeSizeTimes e n s) = min (probesize e s * 2 ^ n) 5000000)"
proof (cases n)
  case 0
  then show ?thesis by simp
next
  case (Suc m)
  have t: "probesizeOverrideTimeout (adjustProbeSizeTimes e n s) =
           (if n < 10 then Some 600000 else None)"
    using assms adjustProbeSizeTimes_timeout [of e m s] unfolding Suc
    by (simp del: adjustProbeSizeTimes.simps)
  have o: "probesizeOverride (adjustProbeSizeTimes e n s) = min (probesize e s * 2 ^ n) 5000000"
    unfolding Suc by (rule adjustProbeSizeTimes_override)
  show ?thesis
  proof (cases "n < 10")
    case True
    with t have "probesizeOverrideTimeout (adjustProbeSizeTimes e n s) = Some 600000" by simp
    then show ?thesis using True by (simp add: probesizeTimeoutFires_armed)
  next
    case False
    with t have "probesizeOverrideTimeout (adjustProbeSizeTimes e n s) = None" by simp
    then show ?thesis using False o by (simp add: probesizeTimeoutFires_unarmed)
  qed
qed

theorem adjustProbeSize_ten_failures_witness:
  "probesizeOverrideCount newDelegate = 0 \<and>
   probesizeOverrideTimeout (adjustProbeSizeTimes camera 9 newDelegate) = Some 600000 \<and>
   probesizeOverride (probesizeTimeoutFires (adjustProbeSizeTimes camera 9 newDelegate)) = 0 \<and>
   probesizeOverrideTimeout (adjustProbeSizeTimes camera 10 newDelegate) = None \<and>
   probesizeOverride (adjustProbeSizeTimes camera 10 newDelegate) = 5000000"
proof -
  have c: "probesizeOverrideCount newDelegate = 0" by (simp add: newDelegate_def)
  have p: "probesize camera newDelegate = 16384"
    by (simp add: probesize_def newDelegate_def camera_def)
  show ?thesis
    using adjustProbeSize_ten_failures [OF c, of 9 camera]
      adjustProbeSize_ten_failures [OF c, of 10 camera] c p
    by simp
qed

text \<open>
  C5. One call adds one to the failure counter and sets the override to twice the
  effective probe size, capped at 5,000,000. The getter returns the override when it is
  nonzero and the camera's hint otherwise. Starting from override 0 with hint \<open>h\<close>, the
  effective probe size after \<open>n\<close> calls in a row is \<open>min (h * 2 ^ n) 5000000\<close>, for
  every \<open>n \<ge> 1\<close> (and for \<open>n = 0\<close> when the hint itself does not exceed the cap).
\<close>

theorem adjustProbeSize_doubles_capped:
  "probesizeOverrideCount (adjustProbeSize e s) = probesizeOverrideCount s + 1 \<and>
   probesizeOverride (adjustProbeSize e s) = min (2 * probesize e s) 5000000 \<and>
   probesize e s = (if probesizeOverride s \<noteq> 0 then probesizeOverride s else hints_probesize e) \<and>
   (probesizeOverride s = 0 \<and> (0 < n \<or> hints_probesize e \<le> 5000000) \<longrightarrow>
      probesize e (adjustProbeSizeTimes e n s) = min (hints_probesize e * 2 ^ n) 5000000)"
proof -
  have "probesize e (adjustProbeSizeTimes e n s) = min (hints_probesize e * 2 ^ n) 5000000"
    if z: "probesizeOverride s = 0" and n: "0 < n \<or> hints_probesize e \<le> 5000000"
  proof (cases n)
    case 0
    with n z show ?thesis by (simp add: probesize_def)
  next
    case (Suc m)
    have "probesize e s = hints_probesize e" using z by (simp add: probesize_def)
    then show ?thesis unfolding Suc by (simp only: probesize_adjustProbeSizeTimes)
  qed
  then show ?thesis
    by (simp add: adjustProbeSize_count adjustProbeSize_override probesize_def mult.commute)
qed

theorem adjustProbeSize_doubles_capped_witness:
  "probesizeOverride newDelegate = 0 \<and>
   probesize camera (adjustProbeSizeTimes camera 3 newDelegate) = 131072 \<and>
   probesize camera (adjustProbeSizeTimes camera 9 newDelegate) = 5000000"
  using adjustProbeSize_doubles_capped [of camera newDelegate 3]
    adjustProbeSize_doubles_capped [of camera newDelegate 9]
  by (simp add: newDelegate_def camera_def)

text \<open>
  C8. When no pending record exists for the request's session, \<^verbatim>\<open>startStream\<close> throws
  at once, whatever the environment (so before the camera's online flag is read): the
  delegate is unchanged, in particular nothing is logged and the callback is not invoked.
  The exception also leaves \<^verbatim>\<open>handleStreamRequest\<close>.
\<close>

theorem startStream_without_pending:
  assumes "map_of (pendingSessions s) (start_sessionID request) = None"
  shows "startStream e request s = (Thrown, s) \<and>
         handleStreamRequest e (START request) s = (Thrown, s)"
  using assms by (simp add: startStream_def handleStreamRequest_def)

theorem startStream_without_pending_witness:
  "map_of (pendingSessions newDelegate) (start_sessionID (startRequest ''a'')) = None \<and>
   startStream (camera\<lparr>isOnline := False\<rparr>) (startRequest ''a'') newDelegate = (Thrown, newDelegate) \<and>
   effects (snd (startStream camera (startRequest ''a'') newDelegate)) = []"
proof -
  have h: "map_of (pendingSessions newDelegate) (start_sessionID (startRequest ''a'')) = None"
    by (simp add: newDelegate_def)
  show ?thesis
    using h startStream_without_pending [OF h, of "camera\<lparr>isOnline := False\<rparr>"]
      startStream_without_pending [OF h, of camera]
    by (simp add: newDelegate_def)
qed

lemma reservationResults_append:
  "reservationResults (xs @ ys) = reservationResults xs @ reservationResults ys"
  by (induction xs rule: reservationResults.induct) simp_all

lemma reserveInv_reservePortLocal:
  "reserveInv base st \<Longrightarrow> reserveInv base (snd (reservePortLocal e ipFamily portCount st))"
  by (cases st)
    (auto simp: reserveInv_def reservePortLocal_def Let_def emit_def reservationResults_append
      butlast_append)

lemma reserveInv_onDelegate_emit:
  "reserveInv base st \<Longrightarrow> reservationResults [ev] = [] \<Longrightarrow>
   reserveInv base (onDelegate (emit ev) st)"
  by (cases st) (auto simp: reserveInv_def onDelegate_def emit_def reservationResults_append)


lemma reserveInv_step:
  "reserveInv base st \<Longrightarrow> reservePortLocal e ipFamily portCount st = (p, st') \<Longrightarrow>
   reserveInv base st'"
  using reserveInv_reservePortLocal [of base st e ipFamily portCount] by simp

lemma reserveInv_preparePlumbing:
  "reserveInv (effects s) (snd (preparePlumbing e request s))"
proof -
  have 0: "reserveInv (effects s) (False, [], s)" by (simp add: reserveInv_def)
  show ?thesis
    by (auto simp: preparePlumbing_def Let_def case_prod_beta 0
        intro!: reserveInv_reservePortLocal reserveInv_onDelegate_emit)
qed

text \<open>
  C6. Among the port-pool calls of one \<^verbatim>\<open>prepareStream\<close> a failed answer (\<open>-1\<close>) is
  never followed by another call; and the function always ends by storing the pending
  session and invoking the callback with a response.
\<close>

theorem prepareStream_reservation_failure:
  "- 1 \<notin> set (butlast (reservationResults (newEffects s (prepareStream e request s)))) \<and>
   (\<exists>before response.
      newEffects s (prepareStream e request s) = before @ [PrepareCallback response]) \<and>
   map_of (pendingSessions (prepareStream e request s)) (sessionID request) \<noteq> None"
proof -
  obtain ports failed reservations s6
    where pl: "preparePlumbing e request s = (ports, (failed, reservations, s6))"
    by (metis prod.collapse)
  have "reserveInv (effects s) (failed, reservations, s6)"
    using reserveInv_preparePlumbing [of s e request] by (simp add: pl)
  then obtain new where new: "effects s6 = effects s @ new"
    and last: "- 1 \<notin> set (butlast (reservationResults new))"
    by (auto simp: reserveInv_def)
  obtain a b c d v where ports: "ports = (a, b, c, d, v)" by (metis prod.collapse)
  have "\<exists>response. newEffects s (prepareStream e request s) =
          new @ (if failed then [LogError ''Unable to reserve the UDP ports needed to begin streaming.''] else []) @
          [PrepareCallback response]"
    by (simp add: prepareStream_def pl ports Let_def emit_def newEffects_def new)
  then obtain response where eff: "newEffects s (prepareStream e request s) =
          new @ (if failed then [LogError ''Unable to reserve the UDP ports needed to begin streaming.''] else []) @
          [PrepareCallback response]" by blast
  have 1: "- 1 \<notin> set (butlast (reservationResults (newEffects s (prepareStream e request s))))"
    using last by (simp add: eff reservationResults_append)
  have 2: "\<exists>before response.
      newEffects s (prepareStream e request s) = before @ [PrepareCallback response]"
    using eff by (metis append.assoc)
  have 3: "map_of (pendingSessions (prepareStream e request s)) (sessionID request) \<noteq> None"
    by (simp add: prepareStream_def pl ports Let_def emit_def update_conv')
  from 1 2 3 show ?thesis by blast
qed

theorem prepareStream_reservation_failure_witness:
  "reservationResults
     (newEffects newDelegate
        (prepareStream (camera\<lparr>reservePort := (\<lambda>evs ipFamily portCount. if length evs = 1 then - 1 else 5000)\<rparr>)
           (prepareRequest ''a'') newDelegate)) = [5000, - 1] \<and>
   - 1 \<notin> set (butlast (reservationResults
     (newEffects newDelegate
        (prepareStream (camera\<lparr>reservePort := (\<lambda>evs ipFamily portCount. if length evs = 1 then - 1 else 5000)\<rparr>)
           (prepareRequest ''a'') newDelegate))))"
  using prepareStream_reservation_failure
    [of newDelegate "camera\<lparr>reservePort := (\<lambda>evs ipFamily portCount. if length evs = 1 then - 1 else 5000)\<rparr>"
      "prepareRequest ''a''"]
  by (simp add: eval_defs)

subsection \<open>Teardown when nothing throws\<close>






lemma restoreSettings_fields:
  "ongoingSessions (snd (restoreSettings e s)) = ongoingSessions s"
  "pendingSessions (snd (restoreSettings e s)) = pendingSessions s"
  "probesizeOverride (snd (restoreSettings e s)) = probesizeOverride s"
  "probesizeOverrideCount (snd (restoreSettings e s)) = probesizeOverrideCount s"
  "probesizeOverrideTimeout (snd (restoreSettings e s)) = probesizeOverrideTimeout s"
  "rtspEntry (snd (restoreSettings e s)) = rtspEntry s"
  by (simp_all add: restoreSettings_def Let_def emit_def split: option.splits)









subsection \<open>The restore step\<close>






subsection \<open>Stops that restore nothing\<close>

lemma noRestore_refl: "noRestore s s"
  by (simp add: noRestore_def)

lemma noRestore_trans: "noRestore s s' \<Longrightarrow> noRestore s' s'' \<Longrightarrow> noRestore s s''"
  by (auto simp: noRestore_def)

lemma noRestore_emit: "\<not> isSetBitrate ev \<Longrightarrow> noRestore s (emit ev s)"
  by (simp add: noRestore_def emit_def)

lemma noRestore_stopFfmpeg: "noRestore s (snd (stopFfmpeg e ps s))"
proof (induction ps arbitrary: s)
  case Nil
  show ?case by (simp add: noRestore_refl)
next
  case (Cons p ps)
  have "noRestore s (emit (StopFfmpeg p) s)" by (simp add: noRestore_emit)
  then show ?case using Cons [of "emit (StopFfmpeg p) s"] by (auto intro: noRestore_trans)
qed

lemma noRestore_freePorts: "noRestore s (snd (freePorts e xs s))"
proof (induction xs arbitrary: s)
  case Nil
  show ?case by (simp add: noRestore_refl)
next
  case (Cons x xs)
  have "noRestore s (emit (FreePort x) s)" by (simp add: noRestore_emit)
  then show ?case using Cons [of "emit (FreePort x) s"] by (auto intro: noRestore_trans)
qed

lemma noRestore_closeDemuxer: "noRestore s (snd (closeDemuxer e d s))"
  by (simp add: closeDemuxer_def noRestore_refl noRestore_emit split: option.splits)

lemma noRestore_andThen:
  assumes "noRestore s (snd r)" and "\<And>x. noRestore s x \<Longrightarrow> noRestore x (snd (f x))"
  shows "noRestore s (snd (andThen r f))"
proof (cases r)
  case (Pair c x)
  then show ?thesis using assms by (cases c) (auto simp: andThen_def intro: noRestore_trans)
qed

lemma noRestore_stopOngoing: "noRestore s (snd (stopOngoing e sid s))"
  unfolding stopOngoing_def
  by (auto split: option.splits
      intro!: noRestore_andThen noRestore_stopFfmpeg noRestore_freePorts noRestore_closeDemuxer
        noRestore_refl noRestore_emit)

lemma noRestore_stopPending: "noRestore s (snd (stopPending e sid s))"
  by (simp add: stopPending_def noRestore_refl noRestore_freePorts split: option.splits)

lemma noRestore_deleteEntries: "noRestore s (snd (deleteEntries sid s))"
  by (simp add: deleteEntries_def noRestore_def)

lemma noRestore_restoreSettings:
  "savedBitrate s = 0 \<Longrightarrow> noRestore s (snd (restoreSettings e s))"
  by (simp add: restoreSettings_def noRestore_refl noRestore_emit)

lemma noRestore_saved: "noRestore s s' \<Longrightarrow> savedBitrate s' = savedBitrate s"
  by (simp add: noRestore_def)

lemma noRestore_stopStreamTry:
  assumes "savedBitrate s = 0"
  shows "noRestore s (snd (stopStreamTry e sid s))"
  unfolding stopStreamTry_def
proof (intro noRestore_andThen)
  show "noRestore s (snd (stopOngoing e sid s))" by (rule noRestore_stopOngoing)
  show "noRestore x (snd (stopPending e sid x))" for x by (rule noRestore_stopPending)
  show "noRestore x (snd (deleteEntries sid x))" for x by (rule noRestore_deleteEntries)
  show "noRestore x (snd (restoreSettings e x))" if "noRestore s x" for x
    using that assms by (simp add: noRestore_restoreSettings noRestore_saved)
qed

lemma noRestore_stopStream:
  assumes "savedBitrate s = 0"
  shows "noRestore s (stopStream e sid s)"
proof (cases "stopStreamTry e sid s")
  case (Pair c x)
  have "noRestore s x" using noRestore_stopStreamTry [OF assms, of e sid] Pair by simp
  moreover have "noRestore x (emit (LogError stopErrorMessage) x)" by (simp add: noRestore_emit)
  ultimately show ?thesis
    using Pair by (cases c) (auto simp: stopStream_def intro: noRestore_trans)
qed

lemma noRestore_new:
  "noRestore s s' \<Longrightarrow> filter isSetBitrate (newEffects s s') = [] \<and> savedBitrate s' = savedBitrate s"
  by (auto simp: noRestore_def newEffects_def)

subsection \<open>Stopping a session that does not exist\<close>





subsection \<open>shutdown\<close>









subsection \<open>What the session operations leave alone\<close>

lemma keepsProbe_refl: "keepsProbe s s"
  by (simp add: keepsProbe_def)

lemma keepsProbe_trans: "keepsProbe s s' \<Longrightarrow> keepsProbe s' s'' \<Longrightarrow> keepsProbe s s''"
  by (simp add: keepsProbe_def)

lemma keepsProbe_emit: "keepsProbe s (emit ev s)"
  by (simp add: keepsProbe_def emit_def)

lemma keepsProbe_stopFfmpeg: "keepsProbe s (snd (stopFfmpeg e ps s))"
proof (induction ps arbitrary: s)
  case Nil
  show ?case by (simp add: keepsProbe_refl)
next
  case (Cons p ps)
  show ?case
    using Cons [of "emit (StopFfmpeg p) s"] keepsProbe_emit [of s "StopFfmpeg p"]
    by (auto intro: keepsProbe_trans)
qed

lemma keepsProbe_freePorts: "keepsProbe s (snd (freePorts e xs s))"
proof (induction xs arbitrary: s)
  case Nil
  show ?case by (simp add: keepsProbe_refl)
next
  case (Cons x xs)
  show ?case
    using Cons [of "emit (FreePort x) s"] keepsProbe_emit [of s "FreePort x"]
    by (auto intro: keepsProbe_trans)
qed

lemma keepsProbe_closeDemuxer: "keepsProbe s (snd (closeDemuxer e d s))"
  by (simp add: closeDemuxer_def keepsProbe_refl keepsProbe_emit split: option.splits)

lemma keepsProbe_andThen:
  assumes "keepsProbe s (snd r)" and "\<And>x. keepsProbe x (snd (f x))"
  shows "keepsProbe s (snd (andThen r f))"
proof (cases r)
  case (Pair c x)
  then show ?thesis
    using assms(1) assms(2) [of x] by (cases c) (auto simp: andThen_def intro: keepsProbe_trans)
qed

lemma keepsProbe_stopOngoing: "keepsProbe s (snd (stopOngoing e sid s))"
  unfolding stopOngoing_def
  by (auto split: option.splits
      intro!: keepsProbe_andThen keepsProbe_stopFfmpeg keepsProbe_freePorts
        keepsProbe_closeDemuxer keepsProbe_refl keepsProbe_emit)

lemma keepsProbe_stopPending: "keepsProbe s (snd (stopPending e sid s))"
  by (simp add: stopPending_def keepsProbe_refl keepsProbe_freePorts split: option.splits)

lemma keepsProbe_deleteEntries: "keepsProbe s (snd (deleteEntries sid s))"
  by (simp add: deleteEntries_def keepsProbe_def)

lemma keepsProbe_restoreSettings: "keepsProbe s (snd (restoreSettings e s))"
  by (simp add: keepsProbe_def restoreSettings_fields)

lemma keepsProbe_stopStream: "keepsProbe s (stopStream e sid s)"
proof (cases "stopStreamTry e sid s")
  case (Pair c x)
  have "keepsProbe s (snd (stopStreamTry e sid s))"
    unfolding stopStreamTry_def
    by (intro keepsProbe_andThen keepsProbe_stopOngoing keepsProbe_stopPending
        keepsProbe_deleteEntries keepsProbe_restoreSettings)
  then have "keepsProbe s x" using Pair by simp
  moreover have "keepsProbe x (emit (LogError stopErrorMessage) x)" by (rule keepsProbe_emit)
  ultimately show ?thesis
    using Pair by (cases c) (auto simp: stopStream_def intro: keepsProbe_trans)
qed

lemma keepsProbe_stopEach: "keepsProbe s (stopEach e ks s)"
proof (induction ks arbitrary: s)
  case Nil
  show ?case by (simp add: keepsProbe_refl)
next
  case (Cons k ks)
  show ?case
    using Cons [of "stopStream e k s"] keepsProbe_stopStream [of s e k]
    by (auto intro: keepsProbe_trans)
qed

lemma keepsProbe_shutdown: "keepsProbe s (shutdown e s)"
  by (simp add: shutdown_def keepsProbe_stopEach)

lemma keepsProbe_launchReturnAudio: "keepsProbe s (launchReturnAudio e sid s)"
  by (simp add: launchReturnAudio_def keepsProbe_def emit_def Let_def split: option.splits)

lemma keepsProbe_talkbackFirstPacket: "keepsProbe s (talkbackFirstPacket e running sid s)"
  by (simp add: talkbackFirstPacket_def keepsProbe_refl keepsProbe_launchReturnAudio)

lemma keepsProbe_startStream: "keepsProbe s (snd (startStream e request s))"
  by (simp add: startStream_def Let_def keepsProbe_def emit_def launchReturnAudio_def
      split: option.splits)

lemma keepsProbe_handleStreamRequest: "keepsProbe s (snd (handleStreamRequest e request s))"
proof (cases request)
  case (START r)
  then show ?thesis by (simp add: handleStreamRequest_def keepsProbe_startStream)
next
  case (RECONFIGURE r)
  then show ?thesis
    by (simp add: handleStreamRequest_def Let_def keepsProbe_def emit_def split: option.splits)
next
  case (STOP sid)
  have "keepsProbe (stopStream e sid s) (emit (StreamCallback None) (stopStream e sid s))"
    by (rule keepsProbe_emit)
  with keepsProbe_stopStream [of s e sid] STOP show ?thesis
    by (auto simp: handleStreamRequest_def intro: keepsProbe_trans)
qed

lemma keepsSettings_reservePortLocal:
  "keepsSettings s (snd (snd st)) \<Longrightarrow>
   keepsSettings s (snd (snd (snd (reservePortLocal e ipFamily portCount st))))"
  by (cases st)
    (simp add: reservePortLocal_def Let_def emit_def keepsSettings_def keepsProbe_def)

lemma keepsSettings_onDelegate_emit:
  "keepsSettings s (snd (snd st)) \<Longrightarrow> keepsSettings s (snd (snd (onDelegate (emit ev) st)))"
  by (cases st) (simp add: onDelegate_def emit_def keepsSettings_def keepsProbe_def)

lemma keepsSettings_preparePlumbing:
  "keepsSettings s (snd (snd (snd (preparePlumbing e request s))))"
proof -
  have 0: "keepsSettings s s"
    by (simp add: keepsSettings_def keepsProbe_def)
  show ?thesis
    by (auto simp: preparePlumbing_def Let_def case_prod_beta 0
        intro!: keepsSettings_reservePortLocal keepsSettings_onDelegate_emit)
qed

lemma keepsSettings_prepareStream: "keepsSettings s (prepareStream e request s)"
proof -
  obtain ports failed reservations s6
    where pl: "preparePlumbing e request s = (ports, (failed, reservations, s6))"
    by (metis prod.collapse)
  obtain a b c d v where ports: "ports = (a, b, c, d, v)" by (metis prod.collapse)
  have "keepsSettings s s6" using keepsSettings_preparePlumbing [of s e request] by (simp add: pl)
  then show ?thesis
    by (simp add: prepareStream_def pl ports Let_def emit_def keepsSettings_def keepsProbe_def)
qed

lemma keepsProbe_step:
  "op \<noteq> AdjustProbeSize \<Longrightarrow> op \<noteq> ProbesizeTimeoutFires \<Longrightarrow> keepsProbe s (step e op s)"
  using keepsSettings_prepareStream
  by (cases op)
    (simp_all add: keepsProbe_handleStreamRequest keepsProbe_talkbackFirstPacket
      keepsProbe_stopStream keepsProbe_shutdown keepsSettings_def)

subsection \<open>The failure counter over a history\<close>

lemma probesizeTimeoutFires_count:
  "probesizeOverrideCount (probesizeTimeoutFires s) = probesizeOverrideCount s"
  by (simp add: probesizeTimeoutFires_def split: option.splits)

lemma probesizeTimeoutFires_timeout:
  "probesizeOverrideTimeout (probesizeTimeoutFires s) = None"
  by (simp add: probesizeTimeoutFires_def split: option.splits)

lemma step_count:
  "probesizeOverrideCount (step e op s) =
     probesizeOverrideCount s + (if op = AdjustProbeSize then 1 else 0)"
proof (cases "op = AdjustProbeSize \<or> op = ProbesizeTimeoutFires")
  case True
  then show ?thesis by (auto simp: adjustProbeSize_count probesizeTimeoutFires_count)
next
  case False
  then have "keepsProbe s (step e op s)" by (simp add: keepsProbe_step)
  with False show ?thesis by (simp add: keepsProbe_def)
qed

lemma run_count:
  "probesizeOverrideCount (run ops s) = probesizeOverrideCount s + adjustCalls ops"
proof (induction ops arbitrary: s)
  case Nil
  show ?case by (simp add: adjustCalls_def)
next
  case (Cons eo ops)
  have "adjustCalls (eo # ops) = (if snd eo = AdjustProbeSize then 1 else 0) + adjustCalls ops"
    by (simp add: adjustCalls_def)
  then show ?case using Cons [of "step (fst eo) (snd eo) s"] by (simp add: step_count)
qed

lemma step_permanent:
  assumes "10 \<le> probesizeOverrideCount s \<longrightarrow> probesizeOverrideTimeout s = None"
  shows "10 \<le> probesizeOverrideCount (step e op s) \<longrightarrow>
         probesizeOverrideTimeout (step e op s) = None"
proof (cases "op = AdjustProbeSize \<or> op = ProbesizeTimeoutFires")
  case True
  then show ?thesis
    by (auto simp: adjustProbeSize_count adjustProbeSize_timeout probesizeTimeoutFires_timeout)
next
  case False
  then have "keepsProbe s (step e op s)" by (simp add: keepsProbe_step)
  with assms show ?thesis by (simp add: keepsProbe_def)
qed

lemma run_permanent:
  "(10 \<le> probesizeOverrideCount s \<longrightarrow> probesizeOverrideTimeout s = None) \<Longrightarrow>
   10 \<le> probesizeOverrideCount (run ops s) \<longrightarrow> probesizeOverrideTimeout (run ops s) = None"
proof (induction ops arbitrary: s)
  case Nil
  then show ?case by simp
next
  case (Cons eo ops)
  show ?case
    using Cons.IH [OF step_permanent [OF Cons.prems, of "fst eo" "snd eo"]] by simp
qed

text \<open>
  C9. Every step of the delegate leaves the failure counter as it is, except
  \<^verbatim>\<open>adjustProbeSize\<close>, which adds one; the firing of the decay timer is among the steps
  that leave it. So after any history the counter is the number of \<^verbatim>\<open>adjustProbeSize\<close>
  calls made so far, and once ten calls have been made in total, with whatever between
  them, no decay timer is armed and a timer event changes nothing.
\<close>

theorem probesizeOverrideCount_cumulative:
  "probesizeOverrideCount (step e op s) =
     probesizeOverrideCount s + (if op = AdjustProbeSize then 1 else 0) \<and>
   probesizeOverrideCount s \<le> probesizeOverrideCount (run ops s) \<and>
   probesizeOverrideCount (run ops newDelegate) = adjustCalls ops \<and>
   (10 \<le> adjustCalls ops \<longrightarrow>
      probesizeOverrideTimeout (run ops newDelegate) = None \<and>
      probesizeTimeoutFires (run ops newDelegate) = run ops newDelegate)"
proof -
  have c: "probesizeOverrideCount (run ops newDelegate) = adjustCalls ops"
    by (simp add: run_count newDelegate_def)
  have "10 \<le> probesizeOverrideCount newDelegate \<longrightarrow> probesizeOverrideTimeout newDelegate = None"
    by (simp add: newDelegate_def)
  then have "10 \<le> probesizeOverrideCount (run ops newDelegate) \<longrightarrow>
      probesizeOverrideTimeout (run ops newDelegate) = None"
    by (rule run_permanent)
  then have "10 \<le> adjustCalls ops \<longrightarrow> probesizeOverrideTimeout (run ops newDelegate) = None"
    by (simp add: c)
  then show ?thesis
    using c by (simp add: step_count run_count [of ops s] probesizeTimeoutFires_unarmed)
qed

theorem probesizeOverrideCount_cumulative_witness:
  "10 \<le> adjustCalls
     [(camera, AdjustProbeSize), (camera, ProbesizeTimeoutFires),
      (camera, AdjustProbeSize), (camera, ProbesizeTimeoutFires),
      (camera, AdjustProbeSize), (camera, PrepareStream (prepareRequest ''a'')),
      (camera, AdjustProbeSize), (camera, ProbesizeTimeoutFires),
      (camera, AdjustProbeSize), (camera, StopStream ''a''),
      (camera, AdjustProbeSize), (camera, ProbesizeTimeoutFires),
      (camera, AdjustProbeSize), (camera, ProbesizeTimeoutFires),
      (camera, AdjustProbeSize), (camera, ProbesizeTimeoutFires),
      (camera, AdjustProbeSize), (camera, ProbesizeTimeoutFires),
      (camera, AdjustProbeSize)] \<and>
   probesizeOverrideTimeout (run
     [(camera, AdjustProbeSize), (camera, ProbesizeTimeoutFires),
      (camera, AdjustProbeSize), (camera, ProbesizeTimeoutFires),
      (camera, AdjustProbeSize), (camera, PrepareStream (prepareRequest ''a'')),
      (camera, AdjustProbeSize), (camera, ProbesizeTimeoutFires),
      (camera, AdjustProbeSize), (camera, StopStream ''a''),
      (camera, AdjustProbeSize), (camera, ProbesizeTimeoutFires),
      (camera, AdjustProbeSize), (camera, ProbesizeTimeoutFires),
      (camera, AdjustProbeSize), (camera, ProbesizeTimeoutFires),
      (camera, AdjustProbeSize), (camera, ProbesizeTimeoutFires),
      (camera, AdjustProbeSize)] newDelegate) = None"
proof -
  have h: "10 \<le> adjustCalls
     [(camera, AdjustProbeSize), (camera, ProbesizeTimeoutFires),
      (camera, AdjustProbeSize), (camera, ProbesizeTimeoutFires),
      (camera, AdjustProbeSize), (camera, PrepareStream (prepareRequest ''a'')),
      (camera, AdjustProbeSize), (camera, ProbesizeTimeoutFires),
      (camera, AdjustProbeSize), (camera, StopStream ''a''),
      (camera, AdjustProbeSize), (camera, ProbesizeTimeoutFires),
      (camera, AdjustProbeSize), (camera, ProbesizeTimeoutFires),
      (camera, AdjustProbeSize), (camera, ProbesizeTimeoutFires),
      (camera, AdjustProbeSize), (camera, ProbesizeTimeoutFires),
      (camera, AdjustProbeSize)]"
    by (simp add: adjustCalls_def)
  show ?thesis
    using h probesizeOverrideCount_cumulative [of camera AdjustProbeSize newDelegate
     "[(camera, AdjustProbeSize), (camera, ProbesizeTimeoutFires),
      (camera, AdjustProbeSize), (camera, ProbesizeTimeoutFires),
      (camera, AdjustProbeSize), (camera, PrepareStream (prepareRequest ''a'')),
      (camera, AdjustProbeSize), (camera, ProbesizeTimeoutFires),
      (camera, AdjustProbeSize), (camera, StopStream ''a''),
      (camera, AdjustProbeSize), (camera, ProbesizeTimeoutFires),
      (camera, AdjustProbeSize), (camera, ProbesizeTimeoutFires),
      (camera, AdjustProbeSize), (camera, ProbesizeTimeoutFires),
      (camera, AdjustProbeSize), (camera, ProbesizeTimeoutFires),
      (camera, AdjustProbeSize)]"]
    by blast
qed

subsection \<open>Saving the camera's bitrate\<close>

lemma startStream_saves:
  assumes "map_of (pendingSessions s) (start_sessionID request) = Some info"
    and "isOnline e" and "selectRtsp e request = Some entry" and "savedBitrate s = 0"
  shows "savedBitrate (snd (startStream e request s)) =
           (if getBitrate e (channel_id entry) \<le> 0 then 0 else getBitrate e (channel_id entry))"
    and "GetBitrate (channel_id entry) \<in> set (newEffects s (snd (startStream e request s)))"
  using assms
  by (simp_all add: startStream_def Let_def emit_def launchReturnAudio_def newEffects_def
      split: option.splits)

text \<open>
  C10. A start that finds nothing saved reads the camera's bitrate and saves it, clamped
  below at 0: a negative or zero reading leaves the saved value 0. With the saved value 0
  a stop, in any environment, makes no \<^verbatim>\<open>setBitrate\<close> call and leaves the value 0,
  and so does a prepare; the next start therefore reads the camera again.
\<close>

theorem startStream_clamps_saved_bitrate:
  "(map_of (pendingSessions s) (start_sessionID request) = Some info \<and> isOnline e \<and>
    selectRtsp e request = Some entry \<and> savedBitrate s = 0 \<longrightarrow>
      GetBitrate (channel_id entry) \<in> set (newEffects s (snd (startStream e request s))) \<and>
      savedBitrate (snd (startStream e request s)) =
        (if getBitrate e (channel_id entry) \<le> 0 then 0 else getBitrate e (channel_id entry))) \<and>
   (savedBitrate s = 0 \<longrightarrow>
      filter isSetBitrate (newEffects s (stopStream e sid s)) = [] \<and>
      savedBitrate (stopStream e sid s) = 0 \<and>
      savedBitrate (prepareStream e prepare s) = 0)"
proof -
  have "filter isSetBitrate (newEffects s (stopStream e sid s)) = [] \<and>
      savedBitrate (stopStream e sid s) = 0 \<and>
      savedBitrate (prepareStream e prepare s) = 0" if z: "savedBitrate s = 0"
    using noRestore_new [OF noRestore_stopStream [OF z], of e sid]
      keepsSettings_prepareStream [of s e prepare] z
    by (simp add: keepsSettings_def)
  then show ?thesis
    using startStream_saves [of s request info e entry] by blast
qed

lemma prepared_session:
  "prepareStream camera (prepareRequest ''a'') newDelegate =
   \<lparr>ongoingSessions = [],
    pendingSessions =
      [(''a'',
        \<lparr>rtpDemuxer = Some (RtpDemuxer ''ipv4'' 5002 5000 5004),
         rtpPortReservations = [5000, 5002, 5004, 5005, 5010],
         address = ''192.168.1.20'', addressVersion = ''ipv4'',
         videoPort = 50020, videoReturnPort = 5010, videoCryptoSuite = 0,
         videoSRTP = [4, 5, 6], videoSSRC = 22, hasAudioSupport = True,
         audioPort = 50010, audioIncomingRtcpPort = 5000,
         audioIncomingRtpPort = 5004, talkBack = None,
         audioCryptoSuite = 0, audioSRTP = [1, 2, 3], audioSSRC = 11\<rparr>)],
    probesizeOverride = 0, probesizeOverrideCount = 0,
    probesizeOverrideTimeout = None, rtspEntry = None, savedBitrate = 0,
    effects =
      [ReservePort ''ipv4'' 1 5000, ReservePort ''ipv4'' 1 5002, ReservePort ''ipv4'' 2 5004,
       NewRtpDemuxer (RtpDemuxer ''ipv4'' 5002 5000 5004),
       LogError ''Unable to open the return audio channel.'',
       ReservePort ''ipv4'' 1 5010,
       PrepareCallback
        \<lparr>audio_port = 5002, audio_srtp_key = [1, 2], audio_srtp_salt = [3],
         audio_ssrc = 11, video_port = 5010, video_srtp_key = [4, 5],
         video_srtp_salt = [6], video_ssrc = 22\<rparr>]\<rparr>"
  by (simp add: eval_defs)

theorem startStream_clamps_saved_bitrate_witness:
  "savedBitrate (prepareStream camera (prepareRequest ''a'') newDelegate) = 0 \<and>
   getBitrate (camera\<lparr>getBitrate := (\<lambda>c. - 5)\<rparr>) 0 = - 5 \<and>
   GetBitrate 0 \<in> set (newEffects (prepareStream camera (prepareRequest ''a'') newDelegate)
     (snd (startStream (camera\<lparr>getBitrate := (\<lambda>c. - 5)\<rparr>) (startRequest ''a'')
            (prepareStream camera (prepareRequest ''a'') newDelegate)))) \<and>
   savedBitrate
     (snd (startStream (camera\<lparr>getBitrate := (\<lambda>c. - 5)\<rparr>) (startRequest ''a'')
            (prepareStream camera (prepareRequest ''a'') newDelegate))) = 0 \<and>
   filter isSetBitrate
     (newEffects
       (snd (startStream (camera\<lparr>getBitrate := (\<lambda>c. - 5)\<rparr>) (startRequest ''a'')
              (prepareStream camera (prepareRequest ''a'') newDelegate)))
       (stopStream camera ''a''
         (snd (startStream (camera\<lparr>getBitrate := (\<lambda>c. - 5)\<rparr>) (startRequest ''a'')
                (prepareStream camera (prepareRequest ''a'') newDelegate))))) = []"
proof -
  let ?S = "prepareStream camera (prepareRequest ''a'') newDelegate"
  let ?E = "camera\<lparr>getBitrate := (\<lambda>c. - 5)\<rparr>"
  let ?info = "\<lparr>rtpDemuxer = Some (RtpDemuxer ''ipv4'' 5002 5000 5004),
         rtpPortReservations = [5000, 5002, 5004, 5005, 5010],
         address = ''192.168.1.20'', addressVersion = ''ipv4'',
         videoPort = 50020, videoReturnPort = 5010, videoCryptoSuite = 0,
         videoSRTP = [4, 5, 6], videoSSRC = 22, hasAudioSupport = True,
         audioPort = 50010, audioIncomingRtcpPort = 5000,
         audioIncomingRtpPort = 5004, talkBack = None,
         audioCryptoSuite = 0, audioSRTP = [1, 2, 3], audioSSRC = 11\<rparr>"
  let ?entry = "\<lparr>channel_id = 0, url = ''rtsps://camera/high''\<rparr>"
  let ?S1 = "snd (startStream ?E (startRequest ''a'') ?S)"
  have p: "map_of (pendingSessions ?S) (start_sessionID (startRequest ''a'')) = Some ?info"
    unfolding prepared_session by (simp add: startRequest_def)
  have on: "isOnline ?E" by (simp add: camera_def)
  have r: "selectRtsp ?E (startRequest ''a'') = Some ?entry"
    by (simp add: selectRtsp_def camera_def)
  have z: "savedBitrate ?S = 0" unfolding prepared_session by simp
  have g: "getBitrate ?E 0 = - 5" by simp
  have 1: "GetBitrate 0 \<in> set (newEffects ?S ?S1) \<and> savedBitrate ?S1 = 0"
    using startStream_clamps_saved_bitrate [of ?S "startRequest ''a''" ?info ?E ?entry] p on r z g
    by simp
  then have "filter isSetBitrate (newEffects ?S1 (stopStream camera ''a'' ?S1)) = []"
    using startStream_clamps_saved_bitrate [where s = ?S1 and e = camera and sid = "''a''"]
    by blast
  with 1 z g show ?thesis by blast
qed

subsection \<open>Teardown in any environment\<close>




lemma upToThrow_prefix: "\<exists>rest. evs = upToThrow e evs @ rest"
  by (induction evs) auto







lemma perform_sessions:
  "ongoingSessions (snd (perform e evs s)) = ongoingSessions s"
  "pendingSessions (snd (perform e evs s)) = pendingSessions s"
  by (simp_all add: perform_def)












subsection \<open>The saved bitrate while sessions are ongoing\<close>


lemma restoreCalls_active:
  "AList.delete sid (ongoingSessions s) \<noteq> [] \<Longrightarrow> restoreCalls e s sid = []"
  by (simp add: restoreCalls_def)














end
